theory Spec2Isabelle
  imports Complex_Main
begin

section \<open>The subgraph manager of the indexer (indexer-management/subgraphs.ts)\<close>

text \<open>
  A shallow embedding of the class \<open>SubgraphManager\<close>: \<open>graftBase\<close>, \<open>createSubgraph\<close>,
  \<open>deploy\<close>, \<open>reassign\<close> and \<open>ensure\<close>. The JSON-RPC endpoint, the random number
  generator and the constructor of deployment identifiers are parameters (the record
  \<open>env\<close>); the endpoint's state, the indexing rules, the object heap, the logger's
  output and the sequence of calls are the fields of the record \<open>world\<close>, passed through
  every method. A thrown exception is the result \<open>Thrown e\<close>.
\<close>

subsection \<open>JavaScript strings\<close>

text \<open>\<open>startsWith s p\<close>: the string \<open>s\<close> begins with \<open>p\<close>.\<close>

fun startsWith :: "string \<Rightarrow> string \<Rightarrow> bool" where
  "startsWith s [] = True"
| "startsWith [] (p # ps) = False"
| "startsWith (c # cs) (p # ps) = (c = p \<and> startsWith cs ps)"

text \<open>\<open>String.prototype.includes\<close>: \<open>p\<close> occurs somewhere in \<open>s\<close>.\<close>

fun includes_str :: "string \<Rightarrow> string \<Rightarrow> bool" where
  "includes_str [] p = startsWith [] p"
| "includes_str (c # cs) p = (startsWith (c # cs) p \<or> includes_str cs p)"

text \<open>\<open>String.prototype.indexOf\<close>: the index of the first occurrence, or \<open>-1\<close>.\<close>

fun indexOf :: "string \<Rightarrow> string \<Rightarrow> int" where
  "indexOf [] p = (if startsWith [] p then 0 else - 1)"
| "indexOf (c # cs) p =
     (if startsWith (c # cs) p then 0
      else (let i = indexOf cs p in if i < 0 then - 1 else i + 1))"

text \<open>
  \<open>String.prototype.substring\<close>: both indices are clamped to \<open>[0, length]\<close>, and
  exchanged when the first is the larger.
\<close>

definition substring :: "string \<Rightarrow> int \<Rightarrow> int \<Rightarrow> string" where
  "substring s a b =
     (let n = int (length s);
          a' = max 0 (min a n);
          b' = max 0 (min b n);
          lo = min a' b';
          hi = max a' b'
      in take (nat (hi - lo)) (drop (nat lo) s))"

text \<open>Reading an array at an index: \<open>undefined\<close> (here \<open>None\<close>) outside the array.\<close>

definition at_index :: "'a list \<Rightarrow> int \<Rightarrow> 'a option" where
  "at_index xs i = (if 0 \<le> i \<and> i < int (length xs) then Some (xs ! nat i) else None)"

subsection \<open>Data\<close>

datatype IndexerErrorCode = IE020 | IE026 | IE027 | IE028 | IE069

text \<open>
  What can be thrown: the \<open>error\<close> member of a JSON-RPC response (\<open>RemoteError\<close>, with its
  message), a rejected request (\<open>Rejection\<close>: the transport failed, or \<open>pTimeout\<close> gave
  up after 120000 ms), the error of the identifier's constructor, and an \<open>IndexerError\<close>
  with its code and its cause.
\<close>

datatype error =
    RemoteError string
  | Rejection string
  | InvalidDeploymentID string
  | IndexerError IndexerErrorCode error

text \<open>
  Modelled from the spec: \<open>indexerError(code, cause)\<close> is imported from the package's
  index and is not among the sources; it builds the error of the category \<open>code\<close> that
  carries the underlying cause.
\<close>

definition indexerError :: "IndexerErrorCode \<Rightarrow> error \<Rightarrow> error" where
  "indexerError code cause = IndexerError code cause"

datatype 'a result = Returned 'a | Thrown error

datatype SubgraphIdentifierType = DEPLOYMENT | SUBGRAPH | GROUP

datatype IndexingDecisionBasis = RULES | NEVER | ALWAYS | OFFCHAIN

record IndexingRule =
  ruleIdentifier :: string
  identifierType :: SubgraphIdentifierType
  decisionBasis :: IndexingDecisionBasis

text \<open>
  A \<open>SubgraphDeploymentID\<close> is an object: \<open>ref\<close> is its identity on the heap (what
  \<open>Array.prototype.includes\<close> compares), \<open>ipfsHash\<close> the hash it was built from.
\<close>

record SubgraphDeploymentID =
  ref :: nat
  ipfsHash :: string

datatype request =
    subgraph_create string
  | subgraph_deploy string string "string option"
  | subgraph_reassign "string option" string

text \<open>
  The outcome of \<open>client.request\<close>: a response without \<open>error\<close>, a response with an
  \<open>error\<close> (and its message), or a rejected promise.
\<close>

datatype response = ResponseResult | ResponseError string | Rejected string

datatype level = Debug | Info | Warn | Error

text \<open>
  The calls a run makes, in order: the requests sent to the endpoint, the entries into
  \<open>ensure\<close> (name, hash of the deployment, index node, depth) and the rules handed to
  \<open>upsertIndexingRule\<close>.
\<close>

datatype event =
    Request request
  | EnsureCall string string "string option" int
  | UpsertCall IndexingRule

record 'r world =
  remote :: 'r
  rules :: "IndexingRule list"
  nextRef :: nat
  draws :: nat
  logs :: "(level \<times> string) list"
  trace :: "event list"

text \<open>
  The collaborators: \<open>rpc\<close> answers a request in a state of the endpoint and gives the
  endpoint's next state; \<open>random k\<close> is the value of the \<open>k\<close>-th call of \<open>Math.random\<close>
  (in \<open>[0, 1)\<close>, a rational here); \<open>validID\<close> says which strings the constructor of
  \<open>SubgraphDeploymentID\<close> accepts.
\<close>

record 'r env =
  rpc :: "'r \<Rightarrow> request \<Rightarrow> response \<times> 'r"
  random :: "nat \<Rightarrow> rat"
  validID :: "string \<Rightarrow> bool"

record SubgraphManager =
  indexNodeIDs :: "string list"
  autoGraftResolverDepth :: int

text \<open>
  The constructor; the endpoint only selects the transport of the client, which is the
  parameter \<open>rpc\<close>.
\<close>

definition newSubgraphManager :: "string \<Rightarrow> string list \<Rightarrow> int option \<Rightarrow> SubgraphManager" where
  "newSubgraphManager endpoint nodeIDs depth =
     \<lparr>indexNodeIDs = nodeIDs,
      autoGraftResolverDepth = (case depth of None \<Rightarrow> 0 | Some d \<Rightarrow> d)\<rparr>"

subsection \<open>Effects\<close>

definition logger :: "level \<Rightarrow> string \<Rightarrow> 'r world \<Rightarrow> 'r world" where
  "logger l m w = w\<lparr>logs := logs w @ [(l, m)]\<rparr>"

definition emit :: "event \<Rightarrow> 'r world \<Rightarrow> 'r world" where
  "emit e w = w\<lparr>trace := trace w @ [e]\<rparr>"

text \<open>\<open>client.request\<close>: the request is recorded and the endpoint moves on.\<close>

definition request :: "'r env \<Rightarrow> request \<Rightarrow> 'r world \<Rightarrow> response \<times> 'r world" where
  "request E q w =
     (case rpc E (remote w) q of
        (resp, r') \<Rightarrow> (resp, emit (Request q) (w\<lparr>remote := r'\<rparr>)))"

text \<open>
  \<open>new SubgraphDeploymentID(s)\<close>. The class is imported from another package and is not
  among the sources: which strings its constructor accepts is the parameter \<open>validID\<close>.
  On a string it does not accept it throws; otherwise it gives a new object, different
  from every object that exists, whose hash is read back as \<open>s\<close>.
\<close>

definition newSubgraphDeploymentID ::
  "'r env \<Rightarrow> string \<Rightarrow> 'r world \<Rightarrow> SubgraphDeploymentID result \<times> 'r world" where
  "newSubgraphDeploymentID E s w =
     (if validID E s
      then (Returned \<lparr>ref = nextRef w, ipfsHash = s\<rparr>, w\<lparr>nextRef := Suc (nextRef w)\<rparr>)
      else (Thrown (InvalidDeploymentID s), w))"

subsection \<open>graftBase\<close>

definition graftSignature :: string where
  "graftSignature =
     ''subgraph validation error: [the graft base is invalid: deployment not found''"

text \<open>The token that \<open>graftBase\<close> cuts out of the message (the constant \<open>graftBaseQm\<close>).\<close>

definition graftBaseQm :: "string \<Rightarrow> string" where
  "graftBaseQm message =
     substring message (indexOf message ''Qm'') (indexOf message ''Qm'' + 46)"

text \<open>\<open>graftBase\<close>, on the message of the error it is given.\<close>

definition graftBase ::
  "'r env \<Rightarrow> SubgraphManager \<Rightarrow> string \<Rightarrow> int \<Rightarrow> 'r world
     \<Rightarrow> SubgraphDeploymentID option result \<times> 'r world" where
  "graftBase E this message depth w =
     (if includes_str message graftSignature then
        if depth \<ge> autoGraftResolverDepth this then
          (Returned None,
           logger Warn
             ''Grafting depth for deployment reached auto-graft-resolver-depth limit'' w)
        else
          (case newSubgraphDeploymentID E (graftBaseQm message) w of
             (Thrown e, w') \<Rightarrow> (Thrown e, w')
           | (Returned d, w') \<Rightarrow> (Returned (Some d), w'))
      else (Returned None, w))"

subsection \<open>The target node\<close>

text \<open>
  The first statement of \<open>deploy\<close> and of \<open>reassign\<close> (the same text in both): an index
  node that is given, and is not the empty string (the test is \<open>if (indexNode)\<close>), is the
  target, with a warning when it is not one of \<open>indexNodeIDs\<close>; otherwise the target is
  \<open>indexNodeIDs[Math.floor(Math.random() * indexNodeIDs.length)]\<close>.
\<close>

definition randomNode :: "'r env \<Rightarrow> SubgraphManager \<Rightarrow> 'r world \<Rightarrow> string option \<times> 'r world" where
  "randomNode E this w =
     (at_index (indexNodeIDs this)
        \<lfloor>random E (draws w) * of_nat (length (indexNodeIDs this))\<rfloor>,
      w\<lparr>draws := Suc (draws w)\<rparr>)"

definition targetNode ::
  "'r env \<Rightarrow> SubgraphManager \<Rightarrow> string option \<Rightarrow> 'r world \<Rightarrow> string option \<times> 'r world" where
  "targetNode E this indexNode w =
     (case indexNode of
        None \<Rightarrow> randomNode E this w
      | Some n \<Rightarrow>
          if n = [] then randomNode E this w
          else if n \<in> set (indexNodeIDs this) then (Some n, w)
          else (Some n,
                logger Warn
                  ''Specified deployment target node not present in indexNodeIDs supplied at startup, proceeding with deploy to target node anyway.''
                  w))"

subsection \<open>createSubgraph\<close>

text \<open>
  The handler of \<open>createSubgraph\<close>: a debug line when the message has
  \<open>already exists\<close>; then the error is thrown again, in both cases.
\<close>

definition createSubgraph_catch :: "error \<Rightarrow> string \<Rightarrow> 'r world \<Rightarrow> unit result \<times> 'r world" where
  "createSubgraph_catch e message w =
     (let w' = (if includes_str message ''already exists''
                then logger Debug ''Subgraph name already exists'' w else w)
      in (Thrown e, w'))"

definition createSubgraph :: "'r env \<Rightarrow> string \<Rightarrow> 'r world \<Rightarrow> unit result \<times> 'r world" where
  "createSubgraph E name w =
     (case request E (subgraph_create name) (logger Info ''Create subgraph name'' w) of
        (Rejected m, w1) \<Rightarrow> createSubgraph_catch (Rejection m) m w1
      | (ResponseError m, w1) \<Rightarrow> createSubgraph_catch (RemoteError m) m w1
      | (ResponseResult, w1) \<Rightarrow>
          (Returned (), logger Info ''Successfully created subgraph name'' w1))"

subsection \<open>reassign\<close>

definition reassign_catch :: "error \<Rightarrow> string \<Rightarrow> 'r world \<Rightarrow> unit result \<times> 'r world" where
  "reassign_catch e message w =
     (if includes_str message ''unchanged''
      then (Thrown e, logger Debug ''Subgraph deployment assignment unchanged'' w)
      else (Thrown (indexerError IE028 e),
            logger Error ''Failed to reassign subgraph deployment'' w))"

definition reassign ::
  "'r env \<Rightarrow> SubgraphManager \<Rightarrow> SubgraphDeploymentID \<Rightarrow> string option \<Rightarrow> 'r world
     \<Rightarrow> unit result \<times> 'r world" where
  "reassign E this deployment indexNode w =
     (case targetNode E this indexNode w of
        (target, w0) \<Rightarrow>
          (case request E (subgraph_reassign target (ipfsHash deployment))
                  (logger Info ''Reassign subgraph deployment'' w0) of
             (Rejected m, w1) \<Rightarrow> reassign_catch (Rejection m) m w1
           | (ResponseError m, w1) \<Rightarrow> reassign_catch (RemoteError m) m w1
           | (ResponseResult, w1) \<Rightarrow> (Returned (), w1)))"

subsection \<open>The indexing rules\<close>

text \<open>
  Modelled from the spec: \<open>fetchIndexingRules\<close> is imported from the package's index and
  is not among the sources. The policy store is keyed by the identifier, and
  \<open>fetchIndexingRules(models, false)\<close> lists every record (\<open>listAll\<close>).
\<close>

definition fetchIndexingRules :: "'r world \<Rightarrow> IndexingRule list" where
  "fetchIndexingRules w = rules w"

text \<open>
  Modelled from the spec: the store's \<open>upsert(record)\<close> writes the record over the one
  with its identifier, or adds it when there is none.
\<close>

fun upsert :: "IndexingRule \<Rightarrow> IndexingRule list \<Rightarrow> IndexingRule list" where
  "upsert r [] = [r]"
| "upsert r (x # xs) =
     (if ruleIdentifier x = ruleIdentifier r then r # xs else x # upsert r xs)"

text \<open>
  Modelled from the spec: \<open>upsertIndexingRule\<close> is imported from the package's index and
  is not among the sources; it upserts the rule it is given into the store.
\<close>

definition upsertIndexingRule :: "IndexingRule \<Rightarrow> 'r world \<Rightarrow> 'r world" where
  "upsertIndexingRule r w = emit (UpsertCall r) (w\<lparr>rules := upsert r (rules w)\<rparr>)"

text \<open>
  \<open>rules.map((rule) => new SubgraphDeploymentID(rule.identifier))\<close>: one new object for
  each rule, in order; the first identifier that the constructor refuses throws.
\<close>

fun mapNew ::
  "'r env \<Rightarrow> IndexingRule list \<Rightarrow> 'r world \<Rightarrow> SubgraphDeploymentID list result \<times> 'r world" where
  "mapNew E [] w = (Returned [], w)"
| "mapNew E (r # rs) w =
     (case newSubgraphDeploymentID E (ruleIdentifier r) w of
        (Thrown e, w') \<Rightarrow> (Thrown e, w')
      | (Returned d, w') \<Rightarrow>
          (case mapNew E rs w' of
             (Thrown e, w'') \<Rightarrow> (Thrown e, w'')
           | (Returned ds, w'') \<Rightarrow> (Returned (d # ds), w'')))"

text \<open>
  \<open>Array.prototype.includes\<close> on an array of objects: the same object, not an equal one.
\<close>

definition includes_obj :: "SubgraphDeploymentID list \<Rightarrow> SubgraphDeploymentID \<Rightarrow> bool" where
  "includes_obj ds d = (ref d \<in> set (map ref ds))"

text \<open>The statements of \<open>deploy\<close> after the log line of a successful request.\<close>

definition syncRule ::
  "'r env \<Rightarrow> SubgraphDeploymentID \<Rightarrow> 'r world \<Rightarrow> unit result \<times> 'r world" where
  "syncRule E deployment w =
     (case mapNew E (fetchIndexingRules w) w of
        (Thrown e, w') \<Rightarrow> (Thrown e, w')
      | (Returned indexingRules, w') \<Rightarrow>
          if includes_obj indexingRules deployment then (Returned (), w')
          else (Returned (),
                upsertIndexingRule
                  \<lparr>ruleIdentifier = ipfsHash deployment,
                   identifierType = DEPLOYMENT,
                   decisionBasis = OFFCHAIN\<rparr> w'))"

subsection \<open>deploy and ensure\<close>

text \<open>The handler of \<open>deploy\<close>: whatever was thrown inside \<open>try\<close> is wrapped as IE026.\<close>

definition deploy_catch :: "error \<Rightarrow> 'r world \<Rightarrow> unit result \<times> 'r world" where
  "deploy_catch e w =
     (Thrown (indexerError IE026 e), logger Error ''Failed to deploy subgraph deployment'' w)"

text \<open>
  The handler of \<open>ensure\<close>: the IE020 error is built and logged; what is thrown is the
  error that was caught.
\<close>

definition ensure_catch :: "error \<Rightarrow> 'r world \<Rightarrow> unit result \<times> 'r world" where
  "ensure_catch e w =
     (let err = indexerError IE020 e
      in (Thrown e, logger Error ''Failed to ensure subgraph deployment is indexing'' w))"

text \<open>
  \<open>deploy\<close> and \<open>ensure\<close> call each other, and nothing bounds the number of retries of
  \<open>ensure\<close> at the same depth: the first argument is the number of nested calls of
  \<open>ensure\<close> from \<open>deploy\<close> that a run may make, and \<open>None\<close> says that it needed more.
\<close>

fun ensure ::
  "nat \<Rightarrow> 'r env \<Rightarrow> SubgraphManager \<Rightarrow> string \<Rightarrow> SubgraphDeploymentID \<Rightarrow> string option
     \<Rightarrow> int option \<Rightarrow> 'r world \<Rightarrow> (unit result \<times> 'r world) option"
and deploy ::
  "nat \<Rightarrow> 'r env \<Rightarrow> SubgraphManager \<Rightarrow> string \<Rightarrow> SubgraphDeploymentID \<Rightarrow> string option
     \<Rightarrow> int \<Rightarrow> 'r world \<Rightarrow> (unit result \<times> 'r world) option"
where
  "ensure fuel E this name deployment indexNode depth0 w =
     (let depth = (case depth0 of None \<Rightarrow> 0 | Some d \<Rightarrow> d) in
      case createSubgraph E name
             (emit (EnsureCall name (ipfsHash deployment) indexNode depth) w) of
        (Thrown e, w1) \<Rightarrow> Some (ensure_catch e w1)
      | (Returned u, w1) \<Rightarrow>
          (case deploy fuel E this name deployment indexNode depth w1 of
             None \<Rightarrow> None
           | Some (Thrown e, w2) \<Rightarrow> Some (ensure_catch e w2)
           | Some (Returned u, w2) \<Rightarrow>
               (case reassign E this deployment indexNode w2 of
                  (Thrown e, w3) \<Rightarrow> Some (ensure_catch e w3)
                | (Returned u, w3) \<Rightarrow> Some (Returned (), w3))))"
| "deploy fuel E this name deployment indexNode depth w =
     (case targetNode E this indexNode w of
        (target, w0) \<Rightarrow>
          (case request E (subgraph_deploy name (ipfsHash deployment) target)
                  (logger Info ''Deploy subgraph'' w0) of
             (Rejected m, w1) \<Rightarrow> Some (deploy_catch (Rejection m) w1)
           | (ResponseResult, w1) \<Rightarrow>
               (case syncRule E deployment
                       (logger Info ''Successfully deployed subgraph'' w1) of
                  (Thrown e, w2) \<Rightarrow> Some (deploy_catch e w2)
                | (Returned u, w2) \<Rightarrow> Some (Returned (), w2))
           | (ResponseError m, w1) \<Rightarrow>
               (case graftBase E this m depth w1 of
                  (Thrown e, w2) \<Rightarrow> Some (deploy_catch e w2)
                | (Returned None, w2) \<Rightarrow>
                    Some (deploy_catch (indexerError IE026 (RemoteError m)) w2)
                | (Returned (Some baseDeployment), w2) \<Rightarrow>
                    (case fuel of
                       0 \<Rightarrow> None
                     | Suc fuel' \<Rightarrow>
                         (case ensure fuel' E this name baseDeployment target (Some (depth + 1))
                                 (logger Debug
                                    ''Found graft base deployment, ensure deployment and a matching offchain indexing rules''
                                    w2) of
                            None \<Rightarrow> None
                          | Some (Thrown e, w3) \<Rightarrow> Some (deploy_catch e w3)
                          | Some (Returned u, w3) \<Rightarrow>
                              (case ensure fuel' E this name deployment target (Some depth) w3 of
                                 None \<Rightarrow> None
                               | Some (Thrown e, w4) \<Rightarrow> Some (deploy_catch e w4)
                               | Some (Returned u, w4) \<Rightarrow>
                                   Some (deploy_catch
                                           (indexerError IE069 (RemoteError m)) w4)))))))"

subsection \<open>Observations and scenarios\<close>

text \<open>The requests among the calls of a run, in order.\<close>

fun requests :: "event list \<Rightarrow> request list" where
  "requests [] = []"
| "requests (Request q # es) = q # requests es"
| "requests (e # es) = requests es"

text \<open>
  An endpoint for the scenarios below: its state is the list of the answers it will
  give, one for each request it receives, whatever the request; when the list is used
  up it rejects.
\<close>

definition scripted :: "response list \<Rightarrow> request \<Rightarrow> response \<times> response list" where
  "scripted rs q = (case rs of [] \<Rightarrow> (Rejected ''no answer'', []) | r # rs' \<Rightarrow> (r, rs'))"

text \<open>
  The environment of the scenarios: the scripted endpoint, a given sequence of random
  numbers, and a constructor that accepts the strings of 46 characters that begin with
  \<open>Qm\<close>.
\<close>

definition scenarioEnv :: "(nat \<Rightarrow> rat) \<Rightarrow> response list env" where
  "scenarioEnv rnd =
     \<lparr>rpc = scripted, random = rnd,
      validID = (\<lambda>s. length s = 46 \<and> startsWith s ''Qm'')\<rparr>"

text \<open>The same, with a constructor that accepts every string.\<close>

definition lenientEnv :: "(nat \<Rightarrow> rat) \<Rightarrow> response list env" where
  "lenientEnv rnd = \<lparr>rpc = scripted, random = rnd, validID = (\<lambda>s. True)\<rparr>"

definition scenarioWorld :: "response list \<Rightarrow> IndexingRule list \<Rightarrow> response list world" where
  "scenarioWorld answers rs =
     \<lparr>remote = answers, rules = rs, nextRef = 1, draws = 0, logs = [], trace = []\<rparr>"

definition hashD :: string where
  "hashD = ''QmDDDDDDDDDDDDDDDDDDDDDDDDDDDDDDDDDDDDDDDDDDDD''"

definition hashB :: string where
  "hashB = ''QmBBBBBBBBBBBBBBBBBBBBBBBBBBBBBBBBBBBBBBBBBBBB''"

text \<open>The deployment of the scenarios, an object that exists in \<open>scenarioWorld\<close>.\<close>

definition deploymentD :: SubgraphDeploymentID where
  "deploymentD = \<lparr>ref = 0, ipfsHash = hashD\<rparr>"

text \<open>The error of a deploy request whose graft base \<open>hashB\<close> is not deployed.\<close>

definition graftError :: string where
  "graftError = graftSignature @ '': '' @ hashB @ '']''"

text \<open>
  The answers of an endpoint that refuses the first deploy request for want of the graft
  base \<open>hashB\<close> and accepts every request after it.
\<close>

definition answersRetry :: "response list" where
  "answersRetry =
     [ResponseError graftError, ResponseResult, ResponseResult, ResponseResult,
      ResponseResult, ResponseResult, ResponseResult]"


definition managerA :: SubgraphManager where
  "managerA = newSubgraphManager ''http://node'' [''nodeA''] (Some 1)"

definition managerAB :: SubgraphManager where
  "managerAB = newSubgraphManager ''http://node'' [''nodeA'', ''nodeB''] None"

definition managerNone :: SubgraphManager where
  "managerNone = newSubgraphManager ''http://node'' [] None"

text \<open>A rule for \<open>hashD\<close> that says never to index it.\<close>

definition ruleNever :: IndexingRule where
  "ruleNever = \<lparr>ruleIdentifier = hashD, identifierType = DEPLOYMENT, decisionBasis = NEVER\<rparr>"

text \<open>The rule that \<open>deploy\<close> writes for a deployment.\<close>

definition offchainRule :: "string \<Rightarrow> IndexingRule" where
  "offchainRule h = \<lparr>ruleIdentifier = h, identifierType = DEPLOYMENT, decisionBasis = OFFCHAIN\<rparr>"

text \<open>Random numbers: 0 at the first call, one half at every later call.\<close>

definition zeroThenHalf :: "nat \<Rightarrow> rat" where
  "zeroThenHalf k = (if k = 0 then 0 else 1 / 2)"

section \<open>Properties\<close>

declare ensure.simps [simp del] deploy.simps [simp del]

subsection \<open>Strings\<close>


lemma startsWith_length: "startsWith s p \<Longrightarrow> length p \<le> length s"
  by (induction s p rule: startsWith.induct) auto



lemma includes_str_length: "includes_str s p \<Longrightarrow> length p \<le> length s"
  by (induction s) (auto dest: startsWith_length)


lemma indexOf_absent: "\<not> includes_str s p \<Longrightarrow> indexOf s p = - 1"
  by (induction s) auto


lemma substring_absent: "45 \<le> length s \<Longrightarrow> substring s (- 1) 45 = take 45 s"
  by (simp add: substring_def Let_def min_def max_def)

subsection \<open>The graft resolver\<close>

lemma graftSignature_length: "length graftSignature = 75"
  by (simp add: graftSignature_def)


lemma graftBaseQm_absent:
  assumes "includes_str message graftSignature" and "\<not> includes_str message ''Qm''"
  shows "graftBaseQm message = take 45 message"
proof -
  have "75 \<le> length message"
    using includes_str_length [OF assms(1)] by (simp add: graftSignature_length)
  then show ?thesis
    using assms(2) by (simp add: graftBaseQm_def indexOf_absent substring_absent)
qed



lemma indexOf_present:
  "includes_str s p \<Longrightarrow> 0 \<le> indexOf s p \<and> indexOf s p \<le> int (length s)"
  by (induction s) (auto simp: Let_def)

lemma substring_from:
  "0 \<le> i \<Longrightarrow> i \<le> int (length s) \<Longrightarrow> substring s i (i + 46) = take 46 (drop (nat i) s)"
  by (auto simp: substring_def Let_def min_def max_def)

lemma graftBaseQm_present:
  "includes_str message ''Qm'' \<Longrightarrow>
     graftBaseQm message = take 46 (drop (nat (indexOf message ''Qm'')) message)"
  using indexOf_present [of message "''Qm''"] by (simp add: graftBaseQm_def substring_from)

text \<open>
  Claim C8, as stated: a message with the signature and a malformed or truncated token
  makes the resolver return absent. It does not, below the depth limit: with no \<open>Qm\<close>
  in the message the first 45 characters go to the constructor, and \<open>graftBase\<close> throws
  what the constructor throws, or returns the identifier the constructor builds.
\<close>

theorem graftBase_malformed_counterexample:
  "fst (graftBase (scenarioEnv (\<lambda>k. 0)) \<lparr>indexNodeIDs = [], autoGraftResolverDepth = 1\<rparr>
          graftSignature 0 (scenarioWorld [] [])) =
     Thrown (InvalidDeploymentID ''subgraph validation error: [the graft base is'') \<and>
   fst (graftBase (lenientEnv (\<lambda>k. 0)) \<lparr>indexNodeIDs = [], autoGraftResolverDepth = 1\<rparr>
          graftSignature 0 (scenarioWorld [] [])) =
     Returned (Some \<lparr>ref = 1, ipfsHash = ''subgraph validation error: [the graft base is''\<rparr>)"
  by (simp add: graftBase_def graftBaseQm_def substring_def newSubgraphDeploymentID_def
      graftSignature_def scenarioEnv_def lenientEnv_def scenarioWorld_def Let_def)

text \<open>
  Claim C8, amended. For a message with the signature the resolver validates nothing:
  at or above the depth limit it returns absent; below the limit it gives the text it
  cut out to the constructor of the identifier, and returns the identifier built from
  that text, or throws the constructor's error, and never returns absent. The text is
  the (at most) 46 characters from the first \<open>Qm\<close> on, and the first 45 characters of
  the message when it has no \<open>Qm\<close>.
\<close>

theorem graftBase_unvalidated:
  assumes "includes_str message graftSignature"
  shows "(autoGraftResolverDepth this \<le> depth \<longrightarrow>
            fst (graftBase E this message depth w) = Returned None) \<and>
         (depth < autoGraftResolverDepth this \<longrightarrow>
            fst (graftBase E this message depth w) =
              (if validID E (graftBaseQm message)
               then Returned (Some \<lparr>ref = nextRef w, ipfsHash = graftBaseQm message\<rparr>)
               else Thrown (InvalidDeploymentID (graftBaseQm message)))) \<and>
         (includes_str message ''Qm'' \<longrightarrow>
            graftBaseQm message = take 46 (drop (nat (indexOf message ''Qm'')) message)) \<and>
         (\<not> includes_str message ''Qm'' \<longrightarrow> graftBaseQm message = take 45 message)"
  using assms
  by (simp add: graftBase_def newSubgraphDeploymentID_def graftBaseQm_present graftBaseQm_absent)

theorem graftBase_unvalidated_witness:
  "fst (graftBase (scenarioEnv (\<lambda>k. 0)) \<lparr>indexNodeIDs = [], autoGraftResolverDepth = 1\<rparr>
          (graftSignature @ '': QmBBBB]'') 1 (scenarioWorld [] [])) = Returned None \<and>
   fst (graftBase (scenarioEnv (\<lambda>k. 0)) \<lparr>indexNodeIDs = [], autoGraftResolverDepth = 1\<rparr>
          (graftSignature @ '': QmBBBB]'') 0 (scenarioWorld [] [])) =
     Thrown (InvalidDeploymentID ''QmBBBB]'') \<and>
   graftBaseQm (graftSignature @ '': QmBBBB]'') = ''QmBBBB]''"
  using graftBase_unvalidated [of "graftSignature @ '': QmBBBB]''"
      "\<lparr>indexNodeIDs = [], autoGraftResolverDepth = 1\<rparr>" 1 "scenarioEnv (\<lambda>k. 0)"
      "scenarioWorld [] []"]
    graftBase_unvalidated [of "graftSignature @ '': QmBBBB]''"
      "\<lparr>indexNodeIDs = [], autoGraftResolverDepth = 1\<rparr>" 0 "scenarioEnv (\<lambda>k. 0)"
      "scenarioWorld [] []"]
  by (simp add: graftSignature_def scenarioEnv_def scenarioWorld_def Let_def)

subsection \<open>The target node\<close>

lemma targetNode_unchanged [simp]:
  "remote (snd (targetNode E this n w)) = remote w"
  "rules (snd (targetNode E this n w)) = rules w"
  "nextRef (snd (targetNode E this n w)) = nextRef w"
  "trace (snd (targetNode E this n w)) = trace w"
  by (simp_all add: targetNode_def randomNode_def logger_def split: option.split)

lemma targetNode_fst:
  "draws w' = draws w \<Longrightarrow> fst (targetNode E this n w') = fst (targetNode E this n w)"
  by (simp add: targetNode_def randomNode_def split: option.split)

subsection \<open>The depth limit\<close>

text \<open>
  Claim C6. For a message with the graft-base signature at a depth that is not below
  \<open>autoGraftResolverDepth\<close>, the resolver returns absent (and logs a warning). In
  particular, for a manager built with no \<open>autoGraftResolverDepth\<close> (the default 0): when
  the name is created and the deploy request fails with such a message, \<open>ensure\<close> at
  its default depth throws the deploy failure, having entered \<open>ensure\<close> once and sent
  the create request and the deploy request and nothing else.
\<close>

theorem graft_depth_ceiling:
  assumes "includes_str m graftSignature"
  shows "(autoGraftResolverDepth this \<le> depth \<longrightarrow>
           graftBase E this m depth w =
             (Returned None,
              logger Warn
                ''Grafting depth for deployment reached auto-graft-resolver-depth limit'' w)) \<and>
         (rpc E (remote w) (subgraph_create name) = (ResponseResult, r1) \<longrightarrow>
          rpc E r1 (subgraph_deploy name (ipfsHash deployment)
                      (fst (targetNode E (newSubgraphManager endpoint pool None) indexNode w))) =
            (ResponseError m, r2) \<longrightarrow>
          map_option fst
              (ensure fuel E (newSubgraphManager endpoint pool None) name deployment indexNode
                 None w) =
            Some (Thrown (IndexerError IE026 (IndexerError IE026 (RemoteError m)))) \<and>
          map_option (trace \<circ> snd)
              (ensure fuel E (newSubgraphManager endpoint pool None) name deployment indexNode
                 None w) =
            Some (trace w @
              [EnsureCall name (ipfsHash deployment) indexNode 0,
               Request (subgraph_create name),
               Request (subgraph_deploy name (ipfsHash deployment)
                 (fst (targetNode E (newSubgraphManager endpoint pool None) indexNode w)))]))"
proof -
  let ?mgr = "newSubgraphManager endpoint pool None"
  have ceiling: "autoGraftResolverDepth this \<le> depth \<Longrightarrow>
      graftBase E this m depth w' =
        (Returned None,
         logger Warn
           ''Grafting depth for deployment reached auto-graft-resolver-depth limit'' w')"
    for this depth and w' :: "'a world"
    using assms by (simp add: graftBase_def)
  have zero: "autoGraftResolverDepth ?mgr \<le> 0"
    by (simp add: newSubgraphManager_def)
  {
    assume c: "rpc E (remote w) (subgraph_create name) = (ResponseResult, r1)"
      and d: "rpc E r1 (subgraph_deploy name (ipfsHash deployment)
                (fst (targetNode E ?mgr indexNode w))) = (ResponseError m, r2)"
    define w1 where "w1 = logger Info ''Successfully created subgraph name''
        (emit (Request (subgraph_create name))
          ((logger Info ''Create subgraph name''
             (emit (EnsureCall name (ipfsHash deployment) indexNode 0) w))\<lparr>remote := r1\<rparr>))"
    have cr: "createSubgraph E name (emit (EnsureCall name (ipfsHash deployment) indexNode 0) w)
        = (Returned (), w1)"
      using c by (simp add: createSubgraph_def request_def logger_def emit_def w1_def)
    obtain target w0 where tn: "targetNode E ?mgr indexNode w1 = (target, w0)"
      by (cases "targetNode E ?mgr indexNode w1")
    have w1: "remote w1 = r1" "draws w1 = draws w" "trace w1 = trace w @
        [EnsureCall name (ipfsHash deployment) indexNode 0, Request (subgraph_create name)]"
      by (simp_all add: w1_def logger_def emit_def)
    have tg: "target = fst (targetNode E ?mgr indexNode w)"
      using targetNode_fst [OF w1(2), of E ?mgr indexNode] tn by simp
    have w0eq: "w0 = snd (targetNode E ?mgr indexNode w1)"
      using tn by simp
    have w0: "remote w0 = r1" "trace w0 = trace w @
        [EnsureCall name (ipfsHash deployment) indexNode 0, Request (subgraph_create name)]"
      unfolding w0eq by (simp_all add: w1)
    have dp: "deploy fuel E ?mgr name deployment indexNode 0 w1 =
        Some (deploy_catch (indexerError IE026 (RemoteError m))
          (logger Warn
            ''Grafting depth for deployment reached auto-graft-resolver-depth limit''
            (emit (Request (subgraph_deploy name (ipfsHash deployment) target))
               ((logger Info ''Deploy subgraph'' w0)\<lparr>remote := r2\<rparr>))))"
      using d tn tg w0 ceiling [OF zero]
      by (simp add: deploy.simps request_def logger_def)
    have "map_option fst (ensure fuel E ?mgr name deployment indexNode None w) =
            Some (Thrown (IndexerError IE026 (IndexerError IE026 (RemoteError m)))) \<and>
          map_option (trace \<circ> snd) (ensure fuel E ?mgr name deployment indexNode None w) =
            Some (trace w @
              [EnsureCall name (ipfsHash deployment) indexNode 0,
               Request (subgraph_create name),
               Request (subgraph_deploy name (ipfsHash deployment)
                 (fst (targetNode E ?mgr indexNode w)))])"
      using cr dp w0 tg
      by (simp add: ensure.simps deploy_catch_def ensure_catch_def indexerError_def
          logger_def emit_def)
  }
  then show ?thesis using ceiling by blast
qed

theorem graft_depth_ceiling_witness:
  "graftBase (scenarioEnv (\<lambda>k. 0)) managerAB graftError 0
       (scenarioWorld [ResponseResult, ResponseError graftError] []) =
     (Returned None,
      logger Warn ''Grafting depth for deployment reached auto-graft-resolver-depth limit''
        (scenarioWorld [ResponseResult, ResponseError graftError] [])) \<and>
   map_option fst
       (ensure 0 (scenarioEnv (\<lambda>k. 0)) managerAB ''sg'' deploymentD (Some ''nodeA'') None
          (scenarioWorld [ResponseResult, ResponseError graftError] [])) =
     Some (Thrown (IndexerError IE026 (IndexerError IE026 (RemoteError graftError)))) \<and>
   map_option (trace \<circ> snd)
       (ensure 0 (scenarioEnv (\<lambda>k. 0)) managerAB ''sg'' deploymentD (Some ''nodeA'') None
          (scenarioWorld [ResponseResult, ResponseError graftError] [])) =
     Some [EnsureCall ''sg'' hashD (Some ''nodeA'') 0,
           Request (subgraph_create ''sg''),
           Request (subgraph_deploy ''sg'' hashD (Some ''nodeA''))]"
  using graft_depth_ceiling [where m = graftError
      and this = managerAB and depth = 0
      and E = "scenarioEnv (\<lambda>k. 0)"
      and w = "scenarioWorld [ResponseResult, ResponseError graftError] []"
      and name = "''sg''" and ?r1.0 = "[ResponseError graftError]" and deployment = deploymentD
      and endpoint = "''http://node''" and pool = "[''nodeA'', ''nodeB'']"
      and indexNode = "Some ''nodeA''" and ?r2.0 = "[]" and fuel = 0]
  by (simp add: graftError_def graftSignature_def hashB_def hashD_def deploymentD_def
      scenarioEnv_def scenarioWorld_def scripted_def newSubgraphManager_def managerAB_def
      targetNode_def)

subsection \<open>Running the scenarios\<close>

lemmas run_defs =
  ensure.simps deploy.simps createSubgraph_def createSubgraph_catch_def reassign_def
  reassign_catch_def targetNode_def randomNode_def at_index_def request_def logger_def
  emit_def graftBase_def graftBaseQm_def substring_def newSubgraphDeploymentID_def
  syncRule_def fetchIndexingRules_def upsertIndexingRule_def includes_obj_def
  deploy_catch_def ensure_catch_def indexerError_def newSubgraphManager_def
  graftSignature_def Let_def

lemmas scenario_defs =
  scripted_def scenarioEnv_def scenarioWorld_def deploymentD_def hashD_def hashB_def
  graftError_def

subsection \<open>The rule synchroniser\<close>

lemma requests_append: "requests (a @ b) = requests a @ requests b"
  by (induction a rule: requests.induct) auto

lemma mapNew_valid:
  "\<forall>r\<in>set rs. validID E (ruleIdentifier r) \<Longrightarrow>
     \<exists>ds. mapNew E rs w = (Returned ds, w\<lparr>nextRef := nextRef w + length rs\<rparr>) \<and>
          (\<forall>d\<in>set ds. nextRef w \<le> ref d)"
proof (induction rs arbitrary: w)
  case Nil
  then show ?case by simp
next
  case (Cons r rs)
  let ?w' = "w\<lparr>nextRef := Suc (nextRef w)\<rparr>"
  from Cons.prems have "\<forall>r\<in>set rs. validID E (ruleIdentifier r)" by simp
  from Cons.IH [OF this, of ?w'] obtain ds where
    ds: "mapNew E rs ?w' = (Returned ds, ?w'\<lparr>nextRef := nextRef ?w' + length rs\<rparr>)"
      "\<forall>d\<in>set ds. nextRef ?w' \<le> ref d" by blast
  from Cons.prems have v: "validID E (ruleIdentifier r)" by simp
  have "mapNew E (r # rs) w =
      (Returned (\<lparr>ref = nextRef w, ipfsHash = ruleIdentifier r\<rparr> # ds),
       w\<lparr>nextRef := nextRef w + length (r # rs)\<rparr>)"
    using v ds(1) by (simp add: newSubgraphDeploymentID_def)
  moreover have "\<forall>d\<in>set (\<lparr>ref = nextRef w, ipfsHash = ruleIdentifier r\<rparr> # ds). nextRef w \<le> ref d"
    using ds(2) by auto
  ultimately show ?case by blast
qed

text \<open>
  The guard of the rule synchroniser never holds: the objects it compares the deployment
  with are all new, so a deployment that exists is none of them, whatever the rules
  are.
\<close>

lemma syncRule_upserts:
  assumes "ref deployment < nextRef w" and "\<forall>r\<in>set (rules w). validID E (ruleIdentifier r)"
  shows "syncRule E deployment w =
     (Returned (),
      upsertIndexingRule
        \<lparr>ruleIdentifier = ipfsHash deployment, identifierType = DEPLOYMENT,
         decisionBasis = OFFCHAIN\<rparr>
        (w\<lparr>nextRef := nextRef w + length (rules w)\<rparr>))"
proof -
  from mapNew_valid [OF assms(2), of w] obtain ds where
    ds: "mapNew E (rules w) w = (Returned ds, w\<lparr>nextRef := nextRef w + length (rules w)\<rparr>)"
      "\<forall>d\<in>set ds. nextRef w \<le> ref d" by blast
  have "\<not> includes_obj ds deployment"
    using ds(2) assms(1) by (auto simp: includes_obj_def)
  then show ?thesis
    using ds(1) by (simp add: syncRule_def fetchIndexingRules_def)
qed

lemma syncRule_returns:
  assumes "\<forall>r\<in>set (rules w). validID E (ruleIdentifier r)"
  shows "\<exists>w'. syncRule E deployment w = (Returned (), w') \<and> remote w' = remote w \<and>
            draws w' = draws w \<and> requests (trace w') = requests (trace w)"
proof -
  from mapNew_valid [OF assms, of w] obtain ds where
    ds: "mapNew E (rules w) w = (Returned ds, w\<lparr>nextRef := nextRef w + length (rules w)\<rparr>)"
    by blast
  show ?thesis
    using ds by (simp add: syncRule_def fetchIndexingRules_def upsertIndexingRule_def emit_def
        requests_append)
qed

subsection \<open>The recursion of deploy\<close>

text \<open>
  Claim C1, as stated: after the recursive \<open>ensure\<close> for the dependency, the original
  deployment is retried by a deploy request, not by a full \<open>ensure\<close>. In this run the
  first deploy request fails for want of the graft base \<open>hashB\<close>; after the calls for
  \<open>hashB\<close>, \<open>ensure\<close> is entered again for \<open>hashD\<close> at depth 0, and the name is created
  again and the deployment reassigned, around the second deploy request.
\<close>

theorem deploy_retry_counterexample:
  "map_option (trace \<circ> snd)
     (deploy (Suc 0) (scenarioEnv (\<lambda>k. 0)) managerA ''sg'' deploymentD None 0
        (scenarioWorld answersRetry [])) =
   Some [Request (subgraph_deploy ''sg'' hashD (Some ''nodeA'')),
         EnsureCall ''sg'' hashB (Some ''nodeA'') 1,
         Request (subgraph_create ''sg''),
         Request (subgraph_deploy ''sg'' hashB (Some ''nodeA'')),
         UpsertCall (offchainRule hashB),
         Request (subgraph_reassign (Some ''nodeA'') hashB),
         EnsureCall ''sg'' hashD (Some ''nodeA'') 0,
         Request (subgraph_create ''sg''),
         Request (subgraph_deploy ''sg'' hashD (Some ''nodeA'')),
         UpsertCall (offchainRule hashD),
         Request (subgraph_reassign (Some ''nodeA'') hashD)]"
  by (simp add: run_defs scenario_defs
      managerA_def answersRetry_def offchainRule_def)

text \<open>
  Claim C1, amended. At a depth below \<open>autoGraftResolverDepth\<close>, when the deploy request
  fails with a graft-base error whose token the constructor accepts (the dependency B),
  \<open>deploy\<close> calls \<open>ensure\<close> once for B at depth + 1, with the target node it chose. If
  that call throws, the original deployment is not retried. If it returns, \<open>deploy\<close>
  then calls \<open>ensure\<close> (create, deploy and reassign, not a deploy request alone) for the
  original deployment at the same depth and with the same target node, in the world the
  first call left.
\<close>

theorem deploy_graft_recursion:
  assumes "depth < autoGraftResolverDepth this"
    and "targetNode E this indexNode w = (target, w0)"
    and "request E (subgraph_deploy name (ipfsHash deployment) target)
           (logger Info ''Deploy subgraph'' w0) = (ResponseError m, w1)"
    and "includes_str m graftSignature"
    and "validID E (graftBaseQm m)"
  shows "deploy (Suc n) E this name deployment indexNode depth w =
     (case ensure n E this name \<lparr>ref = nextRef w1, ipfsHash = graftBaseQm m\<rparr> target
             (Some (depth + 1))
             (logger Debug
                ''Found graft base deployment, ensure deployment and a matching offchain indexing rules''
                (w1\<lparr>nextRef := Suc (nextRef w1)\<rparr>)) of
        None \<Rightarrow> None
      | Some (Thrown e, w3) \<Rightarrow> Some (deploy_catch e w3)
      | Some (Returned u, w3) \<Rightarrow>
          (case ensure n E this name deployment target (Some depth) w3 of
             None \<Rightarrow> None
           | Some (Thrown e, w4) \<Rightarrow> Some (deploy_catch e w4)
           | Some (Returned u', w4) \<Rightarrow>
               Some (deploy_catch (indexerError IE069 (RemoteError m)) w4)))"
proof -
  have "graftBase E this m depth w1 =
      (Returned (Some \<lparr>ref = nextRef w1, ipfsHash = graftBaseQm m\<rparr>),
       w1\<lparr>nextRef := Suc (nextRef w1)\<rparr>)"
    using assms(1,4,5) by (simp add: graftBase_def newSubgraphDeploymentID_def)
  then show ?thesis
    by (simp add: deploy.simps [of "Suc n"] assms(2,3))
qed

theorem deploy_graft_recursion_witness:
  "map_option fst
     (deploy (Suc 0) (scenarioEnv (\<lambda>k. 0)) managerA ''sg'' deploymentD None 0
        (scenarioWorld answersRetry [])) =
   Some (Thrown (IndexerError IE026 (IndexerError IE069 (RemoteError graftError))))"
  using deploy_graft_recursion [where depth = 0 and this = managerA
      and E = "scenarioEnv (\<lambda>k. 0)" and indexNode = None
      and w = "scenarioWorld answersRetry []"
      and target = "Some ''nodeA''"
      and ?w0.0 = "(scenarioWorld answersRetry [])\<lparr>draws := 1\<rparr>"
      and name = "''sg''" and deployment = deploymentD and m = graftError
      and ?w1.0 = "snd (request (scenarioEnv (\<lambda>k. 0))
          (subgraph_deploy ''sg'' hashD (Some ''nodeA''))
          (logger Info ''Deploy subgraph'' ((scenarioWorld answersRetry [])\<lparr>draws := 1\<rparr>)))"
      and n = 0]
  by (simp add: run_defs scenario_defs
      managerA_def answersRetry_def)

subsection \<open>The error after a resolved graft base\<close>




subsection \<open>Insert-if-missing of the rule\<close>


subsection \<open>A name that already exists\<close>

text \<open>
  Claim C4: when the endpoint answers the create request with an error whose message
  has \<open>already exists\<close>, \<open>createSubgraph\<close> does not raise and \<open>ensure\<close> goes on to
  deploy. The code differs at this input: \<open>createSubgraph\<close> throws the endpoint's error
  (after the debug line), and \<open>ensure\<close> throws it too, without a deploy request.
\<close>

theorem createSubgraph_already_exists:
  "fst (createSubgraph (scenarioEnv (\<lambda>k. 0)) ''sg''
          (scenarioWorld [ResponseError ''subgraph name already exists: sg'', ResponseResult,
             ResponseResult] [])) =
     Thrown (RemoteError ''subgraph name already exists: sg'') \<and>
   map_option fst
     (ensure 0 (scenarioEnv (\<lambda>k. 0)) managerA ''sg'' deploymentD (Some ''nodeA'') None
        (scenarioWorld [ResponseError ''subgraph name already exists: sg'', ResponseResult,
           ResponseResult] [])) =
     Some (Thrown (RemoteError ''subgraph name already exists: sg'')) \<and>
   map_option (trace \<circ> snd)
     (ensure 0 (scenarioEnv (\<lambda>k. 0)) managerA ''sg'' deploymentD (Some ''nodeA'') None
        (scenarioWorld [ResponseError ''subgraph name already exists: sg'', ResponseResult,
           ResponseResult] [])) =
     Some [EnsureCall ''sg'' hashD (Some ''nodeA'') 0, Request (subgraph_create ''sg'')]"
  by (simp add: run_defs scenario_defs managerA_def)

text \<open>
  The same for every message: an error of the create request is thrown again, whether it
  says \<open>already exists\<close> or not.
\<close>

lemma createSubgraph_rethrows:
  "rpc E (remote w) (subgraph_create name) = (ResponseError m, r') \<Longrightarrow>
     fst (createSubgraph E name w) = Thrown (RemoteError m)"
  by (simp add: createSubgraph_def createSubgraph_catch_def request_def logger_def Let_def)

subsection \<open>What ensure throws\<close>

text \<open>
  Claim C5: whatever fails inside \<open>ensure\<close>, the error that reaches the caller is of
  the category IE020 and carries the cause. The code differs at these inputs (a failing
  create, a failing deploy, a failing reassign): \<open>ensure\<close> throws the error it caught,
  as it caught it; the IE020 error is built and logged only.
\<close>

theorem ensure_throws_unwrapped:
  "map_option fst
     (ensure 0 (scenarioEnv (\<lambda>k. 0)) managerA ''sg'' deploymentD (Some ''nodeA'') None
        (scenarioWorld [ResponseError ''no space''] [])) =
     Some (Thrown (RemoteError ''no space'')) \<and>
   map_option fst
     (ensure 0 (scenarioEnv (\<lambda>k. 0)) managerA ''sg'' deploymentD (Some ''nodeA'') None
        (scenarioWorld [ResponseResult, ResponseError ''no space''] [])) =
     Some (Thrown (IndexerError IE026 (IndexerError IE026 (RemoteError ''no space'')))) \<and>
   map_option fst
     (ensure 0 (scenarioEnv (\<lambda>k. 0)) managerA ''sg'' deploymentD (Some ''nodeA'') None
        (scenarioWorld [ResponseResult, ResponseResult, ResponseError ''no space''] [])) =
     Some (Thrown (IndexerError IE028 (RemoteError ''no space'')))"
  by (simp add: run_defs scenario_defs managerA_def)

text \<open>The same for every run: no error that \<open>ensure\<close> throws is of the category IE020.\<close>

lemma deploy_throws_IE026_aux:
  "(case deploy n E this name deployment indexNode depth w of
      None \<Rightarrow> True
    | Some (Returned u, w') \<Rightarrow> True
    | Some (Thrown e, w') \<Rightarrow> (\<exists>c. e = IndexerError IE026 c))"
  by (simp add: deploy.simps [of n] deploy_catch_def indexerError_def
      split: prod.split response.split result.split option.split nat.split)

lemma deploy_throws_IE026:
  "deploy n E this name deployment indexNode depth w = Some (Thrown e, w') \<Longrightarrow>
     \<exists>c. e = IndexerError IE026 c"
  using deploy_throws_IE026_aux [of n E this name deployment indexNode depth w] by simp

lemma createSubgraph_throws:
  "createSubgraph E name w = (Thrown e, w') \<Longrightarrow> (\<exists>m. e = RemoteError m \<or> e = Rejection m)"
  by (auto simp: createSubgraph_def createSubgraph_catch_def Let_def
      split: prod.splits response.splits)

lemma reassign_throws:
  "reassign E this deployment indexNode w = (Thrown e, w') \<Longrightarrow>
     (\<exists>m. e = RemoteError m \<or> e = Rejection m \<or> e = IndexerError IE028 (RemoteError m)
        \<or> e = IndexerError IE028 (Rejection m))"
  by (auto simp: reassign_def reassign_catch_def indexerError_def
      split: prod.splits response.splits if_splits)

lemma ensure_never_IE020:
  assumes "ensure n E this name deployment indexNode depth w = Some (Thrown e, w')"
  shows "e \<noteq> IndexerError IE020 c"
proof -
  let ?d = "case depth of None \<Rightarrow> 0 | Some d \<Rightarrow> d"
  let ?w = "emit (EnsureCall name (ipfsHash deployment) indexNode ?d) w"
  obtain r1 w1 where c: "createSubgraph E name ?w = (r1, w1)"
    by (cases "createSubgraph E name ?w")
  show ?thesis
  proof (cases r1)
    case (Thrown e1)
    with assms c have "e = e1"
      by (simp add: ensure.simps [of n] ensure_catch_def Let_def)
    with createSubgraph_throws c Thrown show ?thesis by blast
  next
    case (Returned u)
    note r1 = this
    show ?thesis
    proof (cases "deploy n E this name deployment indexNode ?d w1")
      case None
      with assms c r1 show ?thesis by (simp add: ensure.simps [of n] Let_def)
    next
      case (Some p)
      obtain r2 w2 where p: "p = (r2, w2)" by (cases p)
      show ?thesis
      proof (cases r2)
        case (Thrown e2)
        with assms c r1 Some p have "e = e2"
          by (simp add: ensure.simps [of n] ensure_catch_def Let_def)
        with deploy_throws_IE026 Some p Thrown show ?thesis by blast
      next
        case (Returned u2)
        obtain r3 w3 where a: "reassign E this deployment indexNode w2 = (r3, w3)"
          by (cases "reassign E this deployment indexNode w2")
        with assms c r1 Some p Returned obtain e3 where "r3 = Thrown e3" "e = e3"
          by (cases r3) (simp_all add: ensure.simps [of n] ensure_catch_def Let_def)
        with reassign_throws a show ?thesis by blast
      qed
    qed
  qed
qed

subsection \<open>Node selection\<close>

lemma random_index:
  fixes u :: rat
  assumes "0 \<le> u" and "u < 1" and "xs \<noteq> []"
  shows "\<exists>x\<in>set xs. at_index xs \<lfloor>u * of_nat (length xs)\<rfloor> = Some x"
proof -
  have pos: "(0::rat) < of_nat (length xs)" using assms(3) by simp
  have "u * of_nat (length xs) < of_nat (length xs)"
    using assms(2) pos by (simp add: mult_less_cancel_right2)
  then have hi: "\<lfloor>u * of_nat (length xs)\<rfloor> < int (length xs)"
    by (simp add: floor_less_iff)
  have "0 \<le> u * of_nat (length xs)" using assms(1) by simp
  then have lo: "0 \<le> \<lfloor>u * of_nat (length xs)\<rfloor>" by simp
  from lo hi have "nat \<lfloor>u * of_nat (length xs)\<rfloor> < length xs" by linarith
  then have mem: "xs ! nat \<lfloor>u * of_nat (length xs)\<rfloor> \<in> set xs" by (rule nth_mem)
  have "at_index xs \<lfloor>u * of_nat (length xs)\<rfloor> =
      Some (xs ! nat \<lfloor>u * of_nat (length xs)\<rfloor>)"
    unfolding at_index_def using lo hi by (simp only: if_True simp_thms)
  with mem show ?thesis by (rule_tac bexI)
qed

text \<open>
  Claim C9, as stated: with no explicit node and an empty pool, selection fails with a
  fatal configuration error (and an explicit node is always returned verbatim). In the
  code nothing fails: with the empty pool the target node is \<open>undefined\<close>, the requests
  are sent with it, and \<open>ensure\<close> returns. And the empty string as explicit node is not
  returned: the test \<open>if (indexNode)\<close> takes it for no node, and a node of the pool is
  drawn.
\<close>

theorem targetNode_empty_pool_counterexample:
  "targetNode (scenarioEnv zeroThenHalf) managerNone None
       (scenarioWorld [ResponseResult, ResponseResult, ResponseResult] []) =
     (None, (scenarioWorld [ResponseResult, ResponseResult, ResponseResult] [])\<lparr>draws := 1\<rparr>) \<and>
   map_option fst
     (ensure 0 (scenarioEnv zeroThenHalf) managerNone ''sg'' deploymentD None None
        (scenarioWorld [ResponseResult, ResponseResult, ResponseResult] [])) =
     Some (Returned ()) \<and>
   map_option (requests \<circ> trace \<circ> snd)
     (ensure 0 (scenarioEnv zeroThenHalf) managerNone ''sg'' deploymentD None None
        (scenarioWorld [ResponseResult, ResponseResult, ResponseResult] [])) =
     Some [subgraph_create ''sg'', subgraph_deploy ''sg'' hashD None,
           subgraph_reassign None hashD] \<and>
   fst (targetNode (scenarioEnv zeroThenHalf) managerAB (Some [])
          (scenarioWorld [] [])) = Some ''nodeA''"
  by (simp add: run_defs scenario_defs
      managerNone_def managerAB_def zeroThenHalf_def)

text \<open>
  Claim C9, amended. An explicit node that is not the empty string is the target node,
  as it is, with one warning in the log when it is not in the pool, and nothing else
  changed. With no explicit node (or the empty string) and a pool that is not empty,
  the target node is a member of the pool, for every value in \<open>[0, 1)\<close> of
  \<open>Math.random\<close>. With no explicit node and the empty pool there is no error: the
  target node is \<open>undefined\<close>.
\<close>

theorem targetNode_selection:
  "(n \<noteq> [] \<longrightarrow>
      targetNode E this (Some n) w =
        (Some n,
         if n \<in> set (indexNodeIDs this) then w
         else logger Warn
           ''Specified deployment target node not present in indexNodeIDs supplied at startup, proceeding with deploy to target node anyway.''
           w)) \<and>
   (indexNode = None \<or> indexNode = Some [] \<longrightarrow>
      (indexNodeIDs this \<noteq> [] \<longrightarrow> 0 \<le> random E (draws w) \<longrightarrow> random E (draws w) < 1 \<longrightarrow>
         (\<exists>x\<in>set (indexNodeIDs this). fst (targetNode E this indexNode w) = Some x)) \<and>
      (indexNodeIDs this = [] \<longrightarrow> fst (targetNode E this indexNode w) = None))"
proof -
  have a: "indexNode = None \<or> indexNode = Some [] \<Longrightarrow>
      fst (targetNode E this indexNode w) =
        at_index (indexNodeIDs this)
          \<lfloor>random E (draws w) * of_nat (length (indexNodeIDs this))\<rfloor>"
    by (auto simp: targetNode_def randomNode_def)
  have b: "indexNodeIDs this = [] \<Longrightarrow>
      at_index (indexNodeIDs this)
          \<lfloor>random E (draws w) * of_nat (length (indexNodeIDs this))\<rfloor> = None"
    by (simp add: at_index_def)
  show ?thesis
    using a b random_index [of "random E (draws w)" "indexNodeIDs this"]
    by (auto simp: targetNode_def)
qed

theorem targetNode_selection_witness:
  "targetNode (scenarioEnv zeroThenHalf) managerAB (Some ''nodeC'') (scenarioWorld [] []) =
     (Some ''nodeC'',
      logger Warn
        ''Specified deployment target node not present in indexNodeIDs supplied at startup, proceeding with deploy to target node anyway.''
        (scenarioWorld [] [])) \<and>
   targetNode (scenarioEnv zeroThenHalf) managerAB (Some ''nodeB'') (scenarioWorld [] []) =
     (Some ''nodeB'', scenarioWorld [] []) \<and>
   (fst (targetNode (scenarioEnv zeroThenHalf) managerAB None (scenarioWorld [] [])) =
      Some ''nodeA'' \<or>
    fst (targetNode (scenarioEnv zeroThenHalf) managerAB None (scenarioWorld [] [])) =
      Some ''nodeB'') \<and>
   fst (targetNode (scenarioEnv zeroThenHalf) managerNone None (scenarioWorld [] [])) = None"
  using targetNode_selection [of "''nodeC''" "scenarioEnv zeroThenHalf" managerAB
      "scenarioWorld [] []" None]
    targetNode_selection [of "''nodeB''" "scenarioEnv zeroThenHalf" managerAB
      "scenarioWorld [] []" None]
    targetNode_selection [of "''nodeB''" "scenarioEnv zeroThenHalf" managerNone
      "scenarioWorld [] []" None]
  by (simp add: managerAB_def managerNone_def newSubgraphManager_def scenarioEnv_def
      scenarioWorld_def zeroThenHalf_def)

subsection \<open>The nodes of one ensure call\<close>

lemma targetNode_draws:
  "draws w' = draws w \<Longrightarrow>
     draws (snd (targetNode E this n w')) = draws (snd (targetNode E this n w))"
  by (simp add: targetNode_def randomNode_def logger_def split: option.split)

lemma reassign_requests:
  "requests (trace (snd (reassign E this d n w))) =
     requests (trace w) @ [subgraph_reassign (fst (targetNode E this n w)) (ipfsHash d)]"
proof -
  obtain t w0 where tn: "targetNode E this n w = (t, w0)" by (cases "targetNode E this n w")
  have w0: "trace w0 = trace w" using targetNode_unchanged(4) [of E this n w] tn by simp
  obtain resp r' where rp: "rpc E (remote (logger Info ''Reassign subgraph deployment'' w0))
      (subgraph_reassign t (ipfsHash d)) = (resp, r')"
    by (cases "rpc E (remote (logger Info ''Reassign subgraph deployment'' w0))
      (subgraph_reassign t (ipfsHash d))")
  show ?thesis
    using tn w0 rp
    by (cases resp)
      (simp_all add: reassign_def request_def reassign_catch_def logger_def emit_def
        requests_append)
qed

lemma ensure_requests:
  assumes c: "rpc E (remote w) (subgraph_create name) = (ResponseResult, r1)"
    and d: "rpc E r1 (subgraph_deploy name (ipfsHash deployment)
              (fst (targetNode E this indexNode w))) = (ResponseResult, r2)"
    and v: "\<forall>r\<in>set (rules w). validID E (ruleIdentifier r)"
  shows "map_option (requests \<circ> trace \<circ> snd)
           (ensure fuel E this name deployment indexNode depth w) =
         Some (requests (trace w) @
           [subgraph_create name,
            subgraph_deploy name (ipfsHash deployment) (fst (targetNode E this indexNode w)),
            subgraph_reassign
              (fst (targetNode E this indexNode
                 (w\<lparr>draws := draws (snd (targetNode E this indexNode w))\<rparr>)))
              (ipfsHash deployment)])"
proof -
  let ?d = "case depth of None \<Rightarrow> 0 | Some d \<Rightarrow> d"
  let ?h = "ipfsHash deployment"
  define w1 where "w1 = logger Info ''Successfully created subgraph name''
      (emit (Request (subgraph_create name))
        ((logger Info ''Create subgraph name''
           (emit (EnsureCall name ?h indexNode ?d) w))\<lparr>remote := r1\<rparr>))"
  have cr: "createSubgraph E name (emit (EnsureCall name ?h indexNode ?d) w) = (Returned (), w1)"
    using c by (simp add: createSubgraph_def request_def logger_def emit_def w1_def)
  have w1: "remote w1 = r1" "draws w1 = draws w" "rules w1 = rules w"
    "requests (trace w1) = requests (trace w) @ [subgraph_create name]"
    by (simp_all add: w1_def logger_def emit_def requests_append)
  obtain target w0 where tn: "targetNode E this indexNode w1 = (target, w0)"
    by (cases "targetNode E this indexNode w1")
  have tg: "target = fst (targetNode E this indexNode w)"
    using targetNode_fst [OF w1(2), of E this indexNode] tn by simp
  have w0eq: "w0 = snd (targetNode E this indexNode w1)" using tn by simp
  have w0: "remote w0 = r1" "rules w0 = rules w" "trace w0 = trace w1"
    "draws w0 = draws (snd (targetNode E this indexNode w))"
    unfolding w0eq using targetNode_draws [OF w1(2), of E this indexNode]
    by (simp_all add: w1)
  define w2 where "w2 = logger Info ''Successfully deployed subgraph''
      (emit (Request (subgraph_deploy name ?h target))
        ((logger Info ''Deploy subgraph'' w0)\<lparr>remote := r2\<rparr>))"
  have rq: "request E (subgraph_deploy name ?h target) (logger Info ''Deploy subgraph'' w0) =
      (ResponseResult, emit (Request (subgraph_deploy name ?h target))
        ((logger Info ''Deploy subgraph'' w0)\<lparr>remote := r2\<rparr>))"
    using d w0(1) tg by (simp add: request_def logger_def)
  have w2: "rules w2 = rules w" "draws w2 = draws w0"
    "requests (trace w2) = requests (trace w) @
       [subgraph_create name, subgraph_deploy name ?h target]"
    by (simp_all add: w2_def logger_def emit_def requests_append w0 w1)
  from v w2(1) have "\<forall>r\<in>set (rules w2). validID E (ruleIdentifier r)" by simp
  from syncRule_returns [OF this, of deployment] obtain w3 where
    w3: "syncRule E deployment w2 = (Returned (), w3)" "draws w3 = draws w2"
      "requests (trace w3) = requests (trace w2)" by blast
  have dp: "deploy fuel E this name deployment indexNode ?d w1 = Some (Returned (), w3)"
    using tn rq w3(1) by (simp add: deploy.simps [of fuel] w2_def)
  have t2: "fst (targetNode E this indexNode w3) =
      fst (targetNode E this indexNode
        (w\<lparr>draws := draws (snd (targetNode E this indexNode w))\<rparr>))"
    by (rule targetNode_fst) (simp add: w3(2) w2(2) w0(4))
  have fin: "requests (trace (snd (reassign E this deployment indexNode w3))) =
      requests (trace w) @
        [subgraph_create name, subgraph_deploy name ?h target,
         subgraph_reassign
           (fst (targetNode E this indexNode
              (w\<lparr>draws := draws (snd (targetNode E this indexNode w))\<rparr>))) ?h]"
    by (simp add: reassign_requests t2 w3(3) w2(3))
  obtain r4 w4 where ra: "reassign E this deployment indexNode w3 = (r4, w4)"
    by (cases "reassign E this deployment indexNode w3")
  show ?thesis
    using cr dp ra fin tg
    by (cases r4) (simp_all add: ensure.simps [of fuel] ensure_catch_def logger_def Let_def)
qed

text \<open>
  Claim C10, as stated: when an explicit index node is supplied, the deploy step and the
  reassign step both use exactly that node. With the empty string as index node they do
  not: each step draws a node of the pool, here \<open>nodeA\<close> for the deploy request and
  \<open>nodeB\<close> for the reassign request.
\<close>

theorem ensure_empty_node_counterexample:
  "map_option (requests \<circ> trace \<circ> snd)
     (ensure 0 (scenarioEnv zeroThenHalf) managerAB ''sg'' deploymentD (Some []) None
        (scenarioWorld [ResponseResult, ResponseResult, ResponseResult] [])) =
   Some [subgraph_create ''sg'', subgraph_deploy ''sg'' hashD (Some ''nodeA''),
         subgraph_reassign (Some ''nodeB'') hashD]"
  by (simp add: run_defs scenario_defs
      managerAB_def zeroThenHalf_def)

text \<open>
  Claim C10, amended. In one call of \<open>ensure\<close> in which the create request and the
  deploy request succeed (and the constructor accepts the identifiers of the stored
  rules, so that \<open>deploy\<close> returns): when an explicit index node that is not the empty
  string is supplied, the deploy request and the reassign request both name exactly
  that node; when the index node is absent (or the empty string), the deploy request
  names the node drawn by one call of \<open>Math.random\<close> and the reassign request the node
  drawn by the next call, so that for some random outcomes the deployment is
  reassigned to another node than the one it was deployed to.
\<close>

theorem ensure_target_nodes:
  assumes "rpc E (remote w) (subgraph_create name) = (ResponseResult, r1)"
    and "rpc E r1 (subgraph_deploy name (ipfsHash deployment)
           (fst (targetNode E this indexNode w))) = (ResponseResult, r2)"
    and "\<forall>r\<in>set (rules w). validID E (ruleIdentifier r)"
  shows "(\<forall>n. indexNode = Some n \<and> n \<noteq> [] \<longrightarrow>
            map_option (requests \<circ> trace \<circ> snd)
                (ensure fuel E this name deployment indexNode depth w) =
              Some (requests (trace w) @
                [subgraph_create name,
                 subgraph_deploy name (ipfsHash deployment) (Some n),
                 subgraph_reassign (Some n) (ipfsHash deployment)])) \<and>
         (indexNode = None \<or> indexNode = Some [] \<longrightarrow>
            map_option (requests \<circ> trace \<circ> snd)
                (ensure fuel E this name deployment indexNode depth w) =
              Some (requests (trace w) @
                [subgraph_create name,
                 subgraph_deploy name (ipfsHash deployment)
                   (at_index (indexNodeIDs this)
                      \<lfloor>random E (draws w) * of_nat (length (indexNodeIDs this))\<rfloor>),
                 subgraph_reassign
                   (at_index (indexNodeIDs this)
                      \<lfloor>random E (Suc (draws w)) * of_nat (length (indexNodeIDs this))\<rfloor>)
                   (ipfsHash deployment)])) \<and>
         (\<exists>rnd. map_option (requests \<circ> trace \<circ> snd)
                  (ensure 0 (scenarioEnv rnd) managerAB ''sg'' deploymentD None None
                     (scenarioWorld [ResponseResult, ResponseResult, ResponseResult] [])) =
                Some [subgraph_create ''sg'', subgraph_deploy ''sg'' hashD (Some ''nodeA''),
                      subgraph_reassign (Some ''nodeB'') hashD])"
proof -
  note req = ensure_requests [OF assms, of fuel depth]
  have explicit: "n \<noteq> [] \<Longrightarrow> fst (targetNode E this (Some n) w') = Some n"
    for n and w' :: "'a world"
    by (simp add: targetNode_def)
  have absent: "indexNode = None \<or> indexNode = Some [] \<Longrightarrow>
      fst (targetNode E this indexNode w') =
        at_index (indexNodeIDs this)
          \<lfloor>random E (draws w') * of_nat (length (indexNodeIDs this))\<rfloor> \<and>
      draws (snd (targetNode E this indexNode w')) = Suc (draws w')"
    for w' :: "'a world"
    by (auto simp: targetNode_def randomNode_def)
  have one: "\<forall>n. indexNode = Some n \<and> n \<noteq> [] \<longrightarrow>
      map_option (requests \<circ> trace \<circ> snd)
          (ensure fuel E this name deployment indexNode depth w) =
        Some (requests (trace w) @
          [subgraph_create name,
           subgraph_deploy name (ipfsHash deployment) (Some n),
           subgraph_reassign (Some n) (ipfsHash deployment)])"
    using req explicit by auto
  have two: "indexNode = None \<or> indexNode = Some [] \<longrightarrow>
      map_option (requests \<circ> trace \<circ> snd)
          (ensure fuel E this name deployment indexNode depth w) =
        Some (requests (trace w) @
          [subgraph_create name,
           subgraph_deploy name (ipfsHash deployment)
             (at_index (indexNodeIDs this)
                \<lfloor>random E (draws w) * of_nat (length (indexNodeIDs this))\<rfloor>),
           subgraph_reassign
             (at_index (indexNodeIDs this)
                \<lfloor>random E (Suc (draws w)) * of_nat (length (indexNodeIDs this))\<rfloor>)
             (ipfsHash deployment)])"
  proof
    assume a: "indexNode = None \<or> indexNode = Some []"
    show "map_option (requests \<circ> trace \<circ> snd)
          (ensure fuel E this name deployment indexNode depth w) =
        Some (requests (trace w) @
          [subgraph_create name,
           subgraph_deploy name (ipfsHash deployment)
             (at_index (indexNodeIDs this)
                \<lfloor>random E (draws w) * of_nat (length (indexNodeIDs this))\<rfloor>),
           subgraph_reassign
             (at_index (indexNodeIDs this)
                \<lfloor>random E (Suc (draws w)) * of_nat (length (indexNodeIDs this))\<rfloor>)
             (ipfsHash deployment)])"
      unfolding req using absent [OF a, of w]
        absent [OF a, of "w\<lparr>draws := Suc (draws w)\<rparr>"] by simp
  qed
  have three: "\<exists>rnd. map_option (requests \<circ> trace \<circ> snd)
      (ensure 0 (scenarioEnv rnd) managerAB ''sg'' deploymentD None None
         (scenarioWorld [ResponseResult, ResponseResult, ResponseResult] [])) =
      Some [subgraph_create ''sg'', subgraph_deploy ''sg'' hashD (Some ''nodeA''),
            subgraph_reassign (Some ''nodeB'') hashD]"
    by (rule exI [of _ zeroThenHalf]) (simp add: run_defs scenario_defs
      managerAB_def zeroThenHalf_def)
  from one two three show ?thesis by blast
qed

theorem ensure_target_nodes_witness:
  "map_option (requests \<circ> trace \<circ> snd)
     (ensure 0 (scenarioEnv zeroThenHalf) managerAB ''sg'' deploymentD (Some ''nodeC'') None
        (scenarioWorld [ResponseResult, ResponseResult, ResponseResult] [ruleNever])) =
     Some [subgraph_create ''sg'', subgraph_deploy ''sg'' hashD (Some ''nodeC''),
           subgraph_reassign (Some ''nodeC'') hashD] \<and>
   map_option (requests \<circ> trace \<circ> snd)
     (ensure 0 (scenarioEnv zeroThenHalf) managerAB ''sg'' deploymentD None None
        (scenarioWorld [ResponseResult, ResponseResult, ResponseResult] [ruleNever])) =
     Some [subgraph_create ''sg'', subgraph_deploy ''sg'' hashD (Some ''nodeA''),
           subgraph_reassign (Some ''nodeB'') hashD]"
  using ensure_target_nodes [where E = "scenarioEnv zeroThenHalf"
      and w = "scenarioWorld [ResponseResult, ResponseResult, ResponseResult] [ruleNever]"
      and name = "''sg''" and ?r1.0 = "[ResponseResult, ResponseResult]"
      and deployment = deploymentD and this = managerAB and indexNode = "Some ''nodeC''"
      and ?r2.0 = "[ResponseResult]" and fuel = 0 and depth = None]
    ensure_target_nodes [where E = "scenarioEnv zeroThenHalf"
      and w = "scenarioWorld [ResponseResult, ResponseResult, ResponseResult] [ruleNever]"
      and name = "''sg''" and ?r1.0 = "[ResponseResult, ResponseResult]"
      and deployment = deploymentD and this = managerAB and indexNode = None
      and ?r2.0 = "[ResponseResult]" and fuel = 0 and depth = None]
  by (simp add: scenarioEnv_def scenarioWorld_def scripted_def managerAB_def
      newSubgraphManager_def deploymentD_def hashD_def ruleNever_def zeroThenHalf_def
      targetNode_def randomNode_def at_index_def logger_def)

end
